theory Spec2Isabelle
  imports Main "HOL-Library.Word"
begin

section \<open>Data model of main.go\<close>

text \<open>
  The program is three thin functions over Go's \<open>database/sql\<close> handle \<open>db\<close> and an
  entry point that opens the handle and calls them once each. The functions are embedded
  over an explicit model of what the handle answers, so that every \<open>if err != nil\<close> of
  the source is a branch of the model.
\<close>

type_synonym int64 = "64 word"

text \<open>
  \<open>float32\<close>: the program never computes with a price, it only hands the value to the
  driver and receives one from it, so a price is its IEEE-754 bit pattern. The zero
  value \<open>0.0\<close> is the pattern \<open>0\<close>; the literal \<open>49.99\<close> is \<open>0x4247F5C3\<close>.
\<close>

type_synonym float32 = "32 word"

text \<open>\<open>type Album struct { ID int64; Title string; Artist string; Price float32 }\<close>\<close>

record Album =
  ID :: int64
  Title :: string
  Artist :: string
  Price :: float32

text \<open>The zero value of the struct, what \<open>var alb Album\<close> declares.\<close>

definition Album_zero :: Album where
  "Album_zero = \<lparr>ID = 0, Title = [], Artist = [], Price = 0\<rparr>"

text \<open>
  A Go slice is either \<open>nil\<close> (what \<open>var albums []Album\<close> declares, and what the literal
  \<open>nil\<close> returns) or a slice over allocated elements. \<open>append\<close> on the nil slice
  allocates; \<open>len\<close> of the nil slice is 0. The two are different values of the language
  (\<open>albums == nil\<close> tells them apart), so the model keeps them apart.
\<close>

datatype 'a slice = NilSlice | Slice "'a list"

fun append_slice :: "'a slice \<Rightarrow> 'a \<Rightarrow> 'a slice" where
  "append_slice NilSlice x = Slice [x]"
| "append_slice (Slice xs) x = Slice (xs @ [x])"

fun elems :: "'a slice \<Rightarrow> 'a list" where
  "elems NilSlice = []"
| "elems (Slice xs) = xs"

definition len :: "'a slice \<Rightarrow> nat" where
  "len s = length (elems s)"

text \<open>
  Errors. \<open>sql.ErrNoRows\<close> is a sentinel the source compares against with \<open>==\<close>; every
  other error of the driver is an opaque value carrying a message. \<open>fmt.Errorf(format,
  args...)\<close> is kept as the call it is, format string and arguments unrendered: the
  message of the resulting error is \<open>Sprintf\<close> of exactly these. The same argument type
  serves \<open>fmt.Printf\<close> in \<open>main\<close>.
\<close>

datatype error = ErrNoRows | DriverError string | Errorf string "fmt_arg list"
and fmt_arg =
    FInt64 int64
  | FString string
  | FError error
  | FAlbum Album
  | FAlbums "Album slice"

text \<open>The arguments bound to the \<open>?\<close> placeholders of a statement.\<close>

datatype sql_arg = SqlInt64 int64 | SqlString string | SqlFloat32 float32

subsection \<open>The handle \<open>db *sql.DB\<close>\<close>

text \<open>
  What \<open>Scan(&alb.ID, &alb.Title, &alb.Artist, &alb.Price)\<close> does to a freshly declared
  \<open>alb\<close>: the callee holds pointers to the four fields, so the outcome is the record as
  the call leaves it, together with the error it returns. Both call sites scan into a
  zero-valued \<open>alb\<close>, so the record after the call is all there is to say; nothing
  prevents a failing call from having assigned some of the fields.
\<close>

type_synonym scan_outcome = "Album \<times> error option"

text \<open>
  \<open>*sql.Rows\<close>: the rows for which \<open>rows.Next()\<close> answers true, each with the outcome of
  its \<open>Scan\<close>, and what \<open>rows.Err()\<close> answers once \<open>Next\<close> has answered false.
  \<open>*sql.Row\<close> is the outcome of its single \<open>Scan\<close>; \<open>sql.Result\<close> is what
  \<open>LastInsertId()\<close> answers.
\<close>

type_synonym Rows = "scan_outcome list \<times> error option"
type_synonym Row = scan_outcome
type_synonym Result = "error + int64"

text \<open>
  The handle, over a state \<open>'s\<close> of the database behind it. Every call may change that
  state. The source's \<open>defer rows.Close()\<close> discards its result and no statement of the
  program runs after it on the same cursor, so it has no counterpart here.
\<close>

record 's DB =
  Ping :: "'s \<Rightarrow> error option \<times> 's"
  Query :: "'s \<Rightarrow> string \<Rightarrow> sql_arg list \<Rightarrow> (error + Rows) \<times> 's"
  QueryRow :: "'s \<Rightarrow> string \<Rightarrow> sql_arg list \<Rightarrow> Row \<times> 's"
  Exec :: "'s \<Rightarrow> string \<Rightarrow> sql_arg list \<Rightarrow> (error + Result) \<times> 's"

section \<open>The three operations\<close>

subsection \<open>albumsByArtist\<close>

text \<open>
  The loop \<open>for rows.Next() { var alb Album; if err := rows.Scan(...); err != nil { return
  nil, ... }; albums = append(albums, alb) }\<close>. \<open>Inl\<close> is the early \<open>return\<close> out of
  the function, \<open>Inr\<close> the slice accumulated when \<open>Next\<close> answers false.
\<close>

fun rows_loop ::
  "string \<Rightarrow> scan_outcome list \<Rightarrow> Album slice \<Rightarrow> (Album slice \<times> error option) + Album slice"
where
  "rows_loop name [] albums = Inr albums"
| "rows_loop name ((alb, scan_err) # rest) albums =
     (case scan_err of
        Some err \<Rightarrow> Inl (NilSlice, Some (Errorf ''albumsByArtist %q: %v'' [FString name, FError err]))
      | None \<Rightarrow> rows_loop name rest (append_slice albums alb))"

definition albumsByArtist ::
  "'s DB \<Rightarrow> string \<Rightarrow> 's \<Rightarrow> (Album slice \<times> error option) \<times> 's"
where
  "albumsByArtist db name s =
     (case Query db s ''SELECT * FROM album WHERE artist = ?'' [SqlString name] of
        (Inl err, s') \<Rightarrow>
          ((NilSlice, Some (Errorf ''albumsByArtist %q: %v'' [FString name, FError err])), s')
      | (Inr (scans, rows_err), s') \<Rightarrow>
          (case rows_loop name scans NilSlice of
             Inl ret \<Rightarrow> (ret, s')
           | Inr albums \<Rightarrow>
               (case rows_err of
                  Some err \<Rightarrow>
                    ((NilSlice, Some (Errorf ''albumsByArtist %q: %v'' [FString name, FError err])), s')
                | None \<Rightarrow> ((albums, None), s'))))"

subsection \<open>albumByID\<close>

definition albumByID :: "'s DB \<Rightarrow> int64 \<Rightarrow> 's \<Rightarrow> (Album \<times> error option) \<times> 's" where
  "albumByID db id' s =
     (case QueryRow db s ''SELECT * FROM album WHERE id = ?'' [SqlInt64 id'] of
        ((alb, scan_err), s') \<Rightarrow>
          (case scan_err of
             Some err \<Rightarrow>
               if err = ErrNoRows
               then ((alb, Some (Errorf ''albumsById %d: no such album'' [FInt64 id'])), s')
               else ((alb, Some (Errorf ''albumsById %d: %v'' [FInt64 id', FError err])), s')
           | None \<Rightarrow> ((alb, None), s')))"

subsection \<open>addAlbum\<close>

definition addAlbum :: "'s DB \<Rightarrow> Album \<Rightarrow> 's \<Rightarrow> (int64 \<times> error option) \<times> 's" where
  "addAlbum db alb s =
     (case Exec db s ''INSERT INTO album (title, artist, price) VALUES (?, ?, ?)''
             [SqlString (Title alb), SqlString (Artist alb), SqlFloat32 (Price alb)] of
        (Inl err, s') \<Rightarrow> ((0, Some (Errorf ''addAlbum: %v'' [FError err])), s')
      | (Inr result, s') \<Rightarrow>
          (case result of
             Inl err \<Rightarrow> ((0, Some (Errorf ''addAlbum: %v'' [FError err])), s')
           | Inr id' \<Rightarrow> ((id', None), s')))"

section \<open>The entry point\<close>

text \<open>The fields of \<open>mysql.Config\<close> that \<open>main\<close> sets.\<close>

record Config =
  User :: string
  Passwd :: string
  Net :: string
  Addr :: string
  DBName :: string
  AllowNativePasswords :: bool

text \<open>
  What \<open>main\<close> does, in the order it does it: opening the handle, the liveness check,
  the three calls, what it prints, and the \<open>log.Fatal\<close> that ends it.
\<close>

datatype event =
    SqlOpen string Config
  | DbPing
  | Call_albumsByArtist string
  | Call_albumByID int64
  | Call_addAlbum Album
  | Println string
  | Printf string "fmt_arg list"
  | LogFatal error

text \<open>
  The process environment: \<open>os.Getenv\<close>, what \<open>sql.Open\<close> answers for a driver name and
  a configuration (\<open>cfg.FormatDSN()\<close> is a function of the configuration alone), and the
  behaviour of the handle it yields.
\<close>

record 's env =
  Getenv :: "string \<Rightarrow> string"
  sql_Open :: "string \<Rightarrow> Config \<Rightarrow> error + 's"
  handle :: "'s DB"

text \<open>
  \<open>main_cfg\<close> is the composite literal \<open>cfg := mysql.Config{...}\<close>. \<open>main\<close> returns the
  events in order and the exit status: \<open>log.Fatal\<close> prints and calls \<open>os.Exit(1)\<close>,
  returning from \<open>main\<close> exits with 0.
\<close>

definition main_cfg :: "'s env \<Rightarrow> Config" where
  "main_cfg e =
     \<lparr>User = Getenv e ''DBUSER'', Passwd = Getenv e ''DBPASS'', Net = ''tcp'',
      Addr = ''127.0.0.1:3306'', DBName = ''recordings'', AllowNativePasswords = True\<rparr>"

definition main :: "'s env \<Rightarrow> event list \<times> nat" where
  "main e =
     (let cfg = main_cfg e;
          t0 = [SqlOpen ''mysql'' cfg]
      in case sql_Open e ''mysql'' cfg of
           Inl err \<Rightarrow> (t0 @ [LogFatal err], 1)
         | Inr s0 \<Rightarrow>
             (let t1 = t0 @ [DbPing] in
              case Ping (handle e) s0 of
                (Some pingErr, s1) \<Rightarrow> (t1 @ [LogFatal pingErr], 1)
              | (None, s1) \<Rightarrow>
                  (let t2 = t1 @ [Println ''Connected!'', Call_albumsByArtist ''John Coltrane''] in
                   case albumsByArtist (handle e) ''John Coltrane'' s1 of
                     ((albums, Some err), s2) \<Rightarrow> (t2 @ [LogFatal err], 1)
                   | ((albums, None), s2) \<Rightarrow>
                       (let t3 = t2 @ [Printf (''Albums found: %v'' @ [CHR 0x0A]) [FAlbums albums], Call_albumByID 2] in
                        case albumByID (handle e) 2 s2 of
                          ((alb, Some err), s3) \<Rightarrow> (t3 @ [LogFatal err], 1)
                        | ((alb, None), s3) \<Rightarrow>
                            (let new = \<lparr>ID = 0, Title = ''The Modern Sound of Betty Carter'',
                                         Artist = ''Betty Carter'', Price = 0x4247F5C3\<rparr>;
                                 t4 = t3 @ [Printf (''Album found: %v'' @ [CHR 0x0A]) [FAlbum alb], Call_addAlbum new]
                             in case addAlbum (handle e) new s3 of
                                  ((albID, Some err), s4) \<Rightarrow> (t4 @ [LogFatal err], 1)
                                | ((albID, None), s4) \<Rightarrow>
                                    (t4 @ [Printf (''ID of added album: %v'' @ [CHR 0x0A]) [FInt64 albID]], 0))))))"

text \<open>The events that are a call of one of the three query operations.\<close>

fun is_query_call :: "event \<Rightarrow> bool" where
  "is_query_call (Call_albumsByArtist n) = True"
| "is_query_call (Call_albumByID k) = True"
| "is_query_call (Call_addAlbum a) = True"
| "is_query_call ev = False"

section \<open>The database behind the handle\<close>

text \<open>
  Modelled from the spec: the database server and the schema of the \<open>album\<close> table are
  not part of the sources; the program only sends three statements to them. The spec
  describes the table as four columns, an auto-incrementing integer key and three data
  columns (text, text, numeric), with the key database-assigned and unique, and the
  statements as selecting the rows whose column equals the bound value and inserting a
  row of the three bound values. Here a table is its rows in insertion order, already in
  the shape \<open>Scan\<close> decodes them to, and the counter the next key is taken from. This
  database stores the bound values as they are and never fails but when the counter
  has left the positive range of \<open>int64\<close>.
\<close>

record table =
  album_rows :: "Album list"
  auto_increment :: int64

text \<open>
  Modelled from the spec: \<open>SELECT * FROM album WHERE artist = ?\<close> on the missing
  database: a cursor over the rows whose artist equals the bound text, in table order,
  every row decoding without error.
\<close>

fun db_Query :: "table \<Rightarrow> string \<Rightarrow> sql_arg list \<Rightarrow> (error + Rows) \<times> table" where
  "db_Query t q [SqlString name] =
     (if q = ''SELECT * FROM album WHERE artist = ?''
      then (Inr (map (\<lambda>r. (r, None)) (filter (\<lambda>r. Artist r = name) (album_rows t)), None), t)
      else (Inl (DriverError ''unknown statement''), t))"
| "db_Query t q args = (Inl (DriverError ''unknown statement''), t)"

text \<open>
  Modelled from the spec: \<open>SELECT * FROM album WHERE id = ?\<close> on the missing database:
  the first row with that key decodes into the destination; with no such row \<open>Scan\<close>
  assigns nothing and answers \<open>sql.ErrNoRows\<close>.
\<close>

fun db_QueryRow :: "table \<Rightarrow> string \<Rightarrow> sql_arg list \<Rightarrow> Row \<times> table" where
  "db_QueryRow t q [SqlInt64 k] =
     (if q = ''SELECT * FROM album WHERE id = ?''
      then (case filter (\<lambda>r. ID r = k) (album_rows t) of
              [] \<Rightarrow> ((Album_zero, Some ErrNoRows), t)
            | r # rest \<Rightarrow> ((r, None), t))
      else ((Album_zero, Some (DriverError ''unknown statement'')), t))"
| "db_QueryRow t q args = ((Album_zero, Some (DriverError ''unknown statement'')), t)"

text \<open>
  Modelled from the spec: \<open>INSERT INTO album (title, artist, price) VALUES (?, ?, ?)\<close>
  on the missing database: the new row takes the counter as its key and the three bound
  values as its columns, the counter moves on by one, and \<open>LastInsertId\<close> answers the
  key. The insert is refused once the counter is no longer below the largest \<open>int64\<close>.
\<close>

fun db_Exec :: "table \<Rightarrow> string \<Rightarrow> sql_arg list \<Rightarrow> (error + Result) \<times> table" where
  "db_Exec t q [SqlString title, SqlString artist, SqlFloat32 price] =
     (if q = ''INSERT INTO album (title, artist, price) VALUES (?, ?, ?)''
      then (if unat (auto_increment t) < 2 ^ 63 - 1
            then (Inr (Inr (auto_increment t)),
                  t\<lparr>album_rows := album_rows t @
                       [\<lparr>ID = auto_increment t, Title = title, Artist = artist, Price = price\<rparr>],
                    auto_increment := auto_increment t + 1\<rparr>)
            else (Inl (DriverError ''auto-increment exhausted''), t))
      else (Inl (DriverError ''unknown statement''), t))"
| "db_Exec t q args = (Inl (DriverError ''unknown statement''), t)"

definition album_db :: "table DB" where
  "album_db = \<lparr>Ping = (\<lambda>t. (None, t)), Query = db_Query, QueryRow = db_QueryRow, Exec = db_Exec\<rparr>"

text \<open>
  Modelled from the spec: the invariant of the auto-incrementing key. The counter starts
  at 1, every row's key is a positive value the counter has already passed, and no two
  rows share a key.
\<close>

definition table_ok :: "table \<Rightarrow> bool" where
  "table_ok t \<longleftrightarrow>
     0 < unat (auto_increment t) \<and>
     list_all (\<lambda>r. 0 < unat (ID r) \<and> unat (ID r) < unat (auto_increment t)) (album_rows t) \<and>
     distinct (map ID (album_rows t))"

text \<open>
  Modelled from the spec: the keys the table has generated so far are the positive
  values below the counter: none in a new table, and each insert adds the one it returns.
\<close>

definition generated :: "table \<Rightarrow> int64 \<Rightarrow> bool" where
  "generated t k \<longleftrightarrow> 0 < unat k \<and> unat k < unat (auto_increment t)"

text \<open>
  A handle that answers every call with a fixed response and has no state: the
  responses of a failing server or of a row that does not decode.
\<close>

definition fixed_db :: "error option \<Rightarrow> (error + Rows) \<Rightarrow> Row \<Rightarrow> (error + Result) \<Rightarrow> unit DB" where
  "fixed_db p q r x =
     \<lparr>Ping = (\<lambda>s. (p, s)), Query = (\<lambda>s stmt args. (q, s)),
      QueryRow = (\<lambda>s stmt args. (r, s)), Exec = (\<lambda>s stmt args. (x, s))\<rparr>"

text \<open>
  A handle that records the statements it is asked to execute, with their bound
  arguments, and answers each with key 1.
\<close>

definition recording_db :: "(string \<times> sql_arg list) list DB" where
  "recording_db =
     \<lparr>Ping = (\<lambda>s. (None, s)),
      Query = (\<lambda>s stmt args. (Inr ([], None), s @ [(stmt, args)])),
      QueryRow = (\<lambda>s stmt args. ((Album_zero, Some ErrNoRows), s @ [(stmt, args)])),
      Exec = (\<lambda>s stmt args. (Inr (Inr 1), s @ [(stmt, args)]))\<rparr>"

text \<open>\<open>n\<close> calls of \<open>albumByID\<close> with the same key, one after the other, and their results.\<close>

fun albumByID_times :: "nat \<Rightarrow> 's DB \<Rightarrow> int64 \<Rightarrow> 's \<Rightarrow> (Album \<times> error option) list \<times> 's" where
  "albumByID_times 0 db k s = ([], s)"
| "albumByID_times (Suc n) db k s =
     (case albumByID db k s of
        (res, s') \<Rightarrow> (case albumByID_times n db k s' of (rs, s'') \<Rightarrow> (res # rs, s'')))"

section \<open>Sample tables and handles\<close>

text \<open>Three rows, the table holding them, and the record \<open>main\<close> inserts.\<close>

definition blue_train :: Album where
  "blue_train = \<lparr>ID = 1, Title = ''Blue Train'', Artist = ''John Coltrane'', Price = 0x4263F5C3\<rparr>"

definition giant_steps :: Album where
  "giant_steps = \<lparr>ID = 2, Title = ''Giant Steps'', Artist = ''John Coltrane'', Price = 0x427FF5C3\<rparr>"

definition jeru :: Album where
  "jeru = \<lparr>ID = 3, Title = ''Jeru'', Artist = ''Gerry Mulligan'', Price = 0x418FEB85\<rparr>"

definition sample_table :: table where
  "sample_table = \<lparr>album_rows = [blue_train, giant_steps, jeru], auto_increment = 4\<rparr>"

definition betty_carter :: Album where
  "betty_carter = \<lparr>ID = 0, Title = ''The Modern Sound of Betty Carter'',
                    Artist = ''Betty Carter'', Price = 0x4247F5C3\<rparr>"

text \<open>A server that refuses every call.\<close>

definition access_denied :: error where
  "access_denied = DriverError ''Error 1045: Access denied for user''"

definition denied_db :: "unit DB" where
  "denied_db =
     fixed_db (Some access_denied) (Inl access_denied) (Album_zero, Some access_denied)
       (Inl access_denied)"

text \<open>
  A table whose second row has no title: \<open>Scan\<close> assigns the key, fails on the title
  column and leaves the other fields as they were. Its inserts succeed but the driver
  cannot tell the key.
\<close>

definition null_title :: error where
  "null_title = DriverError ''sql: Scan error on column index 1: converting NULL to string is unsupported''"

definition no_insert_id :: error where
  "no_insert_id = DriverError ''LastInsertId is not supported by this driver''"

definition null_title_db :: "unit DB" where
  "null_title_db =
     fixed_db None
       (Inr ([(blue_train, None), (Album_zero\<lparr>ID := 2\<rparr>, Some null_title), (jeru, None)], None))
       (Album_zero\<lparr>ID := 2\<rparr>, Some null_title)
       (Inr (Inl no_insert_id))"

text \<open>
  What the handle answers to the two SELECTs of the program, for the artist John
  Coltrane and for the key 2, on a table of two John Coltrane rows: \<open>blue_train\<close> with
  key 1, and a row with key 2 whose title is NULL. \<open>Scan\<close> of the second row assigns the
  key, fails on the title column and leaves the other fields as they were.
\<close>

definition untitled_row_db :: "unit DB" where
  "untitled_row_db =
     fixed_db None
       (Inr ([(blue_train, None), (Album_zero\<lparr>ID := 2\<rparr>, Some null_title)], None))
       (Album_zero\<lparr>ID := 2\<rparr>, Some null_title)
       (Inr (Inr 3))"

text \<open>A connection that breaks after the first row of a cursor has been read.\<close>

definition bad_connection :: error where
  "bad_connection = DriverError ''invalid connection''"

definition broken_cursor_db :: "unit DB" where
  "broken_cursor_db =
     fixed_db None (Inr ([(blue_train, None)], Some bad_connection))
       (Album_zero, Some ErrNoRows) (Inl bad_connection)"

text \<open>Environments whose \<open>sql.Open\<close> fails, and whose handle opens but does not answer the ping.\<close>

definition open_fails_env :: "table env" where
  "open_fails_env =
     \<lparr>Getenv = (\<lambda>v. []), sql_Open = (\<lambda>d c. Inl (DriverError ''sql: unknown driver'')),
      handle = album_db\<rparr>"

definition ping_fails_env :: "table env" where
  "ping_fails_env =
     \<lparr>Getenv = (\<lambda>v. []), sql_Open = (\<lambda>d c. Inr sample_table),
      handle = album_db\<lparr>Ping := (\<lambda>t. (Some (DriverError ''dial tcp 127.0.0.1:3306: connection refused''), t))\<rparr>\<rparr>"

section \<open>Properties of the loop over the cursor\<close>

lemma rows_loop_all_ok:
  "rows_loop name (map (\<lambda>r. (r, None)) rs) acc = Inr (foldl append_slice acc rs)"
  by (induction rs arbitrary: acc) simp_all

lemma elems_foldl_append: "elems (foldl append_slice acc rs) = elems acc @ rs"
proof (induction rs arbitrary: acc)
  case Nil
  then show ?case by simp
next
  case (Cons r rs)
  then show ?case by (cases acc) simp_all
qed

lemma rows_loop_first_failure:
  "list_all (\<lambda>x. snd x = None) pre \<Longrightarrow>
   rows_loop name (pre @ (a, Some e) # post) acc =
     Inl (NilSlice, Some (Errorf ''albumsByArtist %q: %v'' [FString name, FError e]))"
proof (induction pre arbitrary: acc)
  case Nil
  then show ?case by simp
next
  case (Cons x pre)
  then show ?case by (cases x) simp
qed

lemma rows_loop_Inl:
  "rows_loop name scans acc = Inl ret \<Longrightarrow> fst ret = NilSlice \<and> snd ret \<noteq> None"
proof (induction scans arbitrary: acc)
  case Nil
  then show ?case by simp
next
  case (Cons x scans)
  obtain alb scan_err where x: "x = (alb, scan_err)" by (cases x)
  show ?case
  proof (cases scan_err)
    case None
    with Cons.prems x have "rows_loop name scans (append_slice acc alb) = Inl ret" by simp
    from Cons.IH [OF this] show ?thesis .
  next
    case (Some e)
    with Cons.prems x show ?thesis by auto
  qed
qed

lemma rows_loop_no_failure:
  "list_all (\<lambda>x. snd x = None) scans \<Longrightarrow> \<exists>albums. rows_loop name scans acc = Inr albums"
proof (induction scans arbitrary: acc)
  case Nil
  then show ?case by simp
next
  case (Cons x scans)
  then show ?case by (cases x) simp
qed

lemma albumsByArtist_error_nil:
  "snd (fst (albumsByArtist db name s)) \<noteq> None \<Longrightarrow> fst (fst (albumsByArtist db name s)) = NilSlice"
  by (auto simp: albumsByArtist_def split: prod.splits sum.splits option.splits
      dest: rows_loop_Inl)

section \<open>Failures of albumsByArtist\<close>

text \<open>
  C6. Whatever the name and whatever the handle answers: when \<open>db.Query\<close> fails, when
  the \<open>Scan\<close> of some row fails (the rows before it having decoded), or when
  \<open>rows.Err()\<close> reports an error after every row decoded, \<open>albumsByArtist\<close> returns the
  nil slice together with the error \<open>albumsByArtist %q: %v\<close> built from the name and
  the failure; the rows decoded before the failure and the rows after it are not
  returned. And whenever it returns an error at all, the slice beside it is nil.
\<close>

theorem albumsByArtist_failure_discards:
  "(Query db s ''SELECT * FROM album WHERE artist = ?'' [SqlString name] = (Inl e, s') \<longrightarrow>
      albumsByArtist db name s =
        ((NilSlice, Some (Errorf ''albumsByArtist %q: %v'' [FString name, FError e])), s')) \<and>
   (Query db s ''SELECT * FROM album WHERE artist = ?'' [SqlString name]
        = (Inr (pre @ (a, Some e) # post, rows_err), s') \<and>
    list_all (\<lambda>x. snd x = None) pre \<longrightarrow>
      albumsByArtist db name s =
        ((NilSlice, Some (Errorf ''albumsByArtist %q: %v'' [FString name, FError e])), s')) \<and>
   (Query db s ''SELECT * FROM album WHERE artist = ?'' [SqlString name]
        = (Inr (scans, Some e), s') \<and>
    list_all (\<lambda>x. snd x = None) scans \<longrightarrow>
      albumsByArtist db name s =
        ((NilSlice, Some (Errorf ''albumsByArtist %q: %v'' [FString name, FError e])), s')) \<and>
   (snd (fst (albumsByArtist db name s)) \<noteq> None \<longrightarrow>
      fst (fst (albumsByArtist db name s)) = NilSlice)"
proof (intro conjI impI)
  assume "Query db s ''SELECT * FROM album WHERE artist = ?'' [SqlString name] = (Inl e, s')"
  then show "albumsByArtist db name s =
      ((NilSlice, Some (Errorf ''albumsByArtist %q: %v'' [FString name, FError e])), s')"
    by (simp add: albumsByArtist_def)
next
  assume h: "Query db s ''SELECT * FROM album WHERE artist = ?'' [SqlString name]
        = (Inr (pre @ (a, Some e) # post, rows_err), s') \<and> list_all (\<lambda>x. snd x = None) pre"
  then have "rows_loop name (pre @ (a, Some e) # post) NilSlice =
      Inl (NilSlice, Some (Errorf ''albumsByArtist %q: %v'' [FString name, FError e]))"
    by (simp add: rows_loop_first_failure)
  with h show "albumsByArtist db name s =
      ((NilSlice, Some (Errorf ''albumsByArtist %q: %v'' [FString name, FError e])), s')"
    by (simp add: albumsByArtist_def)
next
  assume h: "Query db s ''SELECT * FROM album WHERE artist = ?'' [SqlString name]
        = (Inr (scans, Some e), s') \<and> list_all (\<lambda>x. snd x = None) scans"
  then have "\<exists>albums. rows_loop name scans NilSlice = Inr albums"
    by (simp add: rows_loop_no_failure)
  with h show "albumsByArtist db name s =
      ((NilSlice, Some (Errorf ''albumsByArtist %q: %v'' [FString name, FError e])), s')"
    by (auto simp: albumsByArtist_def)
next
  assume "snd (fst (albumsByArtist db name s)) \<noteq> None"
  then show "fst (fst (albumsByArtist db name s)) = NilSlice"
    by (rule albumsByArtist_error_nil)
qed

theorem albumsByArtist_failure_discards_witness:
  "albumsByArtist denied_db ''John Coltrane'' ()
     = ((NilSlice, Some (Errorf ''albumsByArtist %q: %v''
                          [FString ''John Coltrane'', FError access_denied])), ()) \<and>
   albumsByArtist null_title_db ''John Coltrane'' ()
     = ((NilSlice, Some (Errorf ''albumsByArtist %q: %v''
                          [FString ''John Coltrane'', FError null_title])), ()) \<and>
   albumsByArtist broken_cursor_db ''John Coltrane'' ()
     = ((NilSlice, Some (Errorf ''albumsByArtist %q: %v''
                          [FString ''John Coltrane'', FError bad_connection])), ())"
proof (intro conjI)
  show "albumsByArtist denied_db ''John Coltrane'' ()
     = ((NilSlice, Some (Errorf ''albumsByArtist %q: %v''
                          [FString ''John Coltrane'', FError access_denied])), ())"
    using albumsByArtist_failure_discards
      [of denied_db "()" "''John Coltrane''" access_denied "()"]
    by (simp add: denied_db_def fixed_db_def)
  show "albumsByArtist null_title_db ''John Coltrane'' ()
     = ((NilSlice, Some (Errorf ''albumsByArtist %q: %v''
                          [FString ''John Coltrane'', FError null_title])), ())"
    using albumsByArtist_failure_discards
      [of null_title_db "()" "''John Coltrane''" null_title "()"
          "[(blue_train, None)]" "Album_zero\<lparr>ID := 2\<rparr>" "[(jeru, None)]" None]
    by (simp add: null_title_db_def fixed_db_def)
  show "albumsByArtist broken_cursor_db ''John Coltrane'' ()
     = ((NilSlice, Some (Errorf ''albumsByArtist %q: %v''
                          [FString ''John Coltrane'', FError bad_connection])), ())"
    using albumsByArtist_failure_discards
      [of broken_cursor_db "()" "''John Coltrane''" bad_connection "()"
          _ _ _ _ "[(blue_train, None)]"]
    by (simp add: broken_cursor_db_def fixed_db_def)
qed

section \<open>Failures of addAlbum\<close>

text \<open>
  C7. Whatever the record: when \<open>db.Exec\<close> fails, and when \<open>Exec\<close> succeeds but
  \<open>result.LastInsertId()\<close> fails, \<open>addAlbum\<close> returns the key 0 together with the error
  \<open>addAlbum: %v\<close> built from the failure. Whenever it returns an error the key beside
  it is 0, so the key carries nothing of the failed insert.
\<close>

theorem addAlbum_failure:
  "(Exec db s ''INSERT INTO album (title, artist, price) VALUES (?, ?, ?)''
        [SqlString (Title alb), SqlString (Artist alb), SqlFloat32 (Price alb)] = (Inl err, s')
      \<longrightarrow> addAlbum db alb s = ((0, Some (Errorf ''addAlbum: %v'' [FError err])), s')) \<and>
   (Exec db s ''INSERT INTO album (title, artist, price) VALUES (?, ?, ?)''
        [SqlString (Title alb), SqlString (Artist alb), SqlFloat32 (Price alb)]
          = (Inr (Inl err), s')
      \<longrightarrow> addAlbum db alb s = ((0, Some (Errorf ''addAlbum: %v'' [FError err])), s')) \<and>
   (snd (fst (addAlbum db alb s)) \<noteq> None \<longrightarrow> fst (fst (addAlbum db alb s)) = 0)"
  by (auto simp: addAlbum_def split: prod.splits sum.splits)

theorem addAlbum_failure_witness:
  "addAlbum denied_db betty_carter ()
     = ((0, Some (Errorf ''addAlbum: %v'' [FError access_denied])), ()) \<and>
   addAlbum null_title_db betty_carter ()
     = ((0, Some (Errorf ''addAlbum: %v'' [FError no_insert_id])), ())"
  using addAlbum_failure [of denied_db "()" betty_carter access_denied "()"]
    addAlbum_failure [of null_title_db "()" betty_carter no_insert_id "()"]
  by (simp add: denied_db_def null_title_db_def fixed_db_def)

section \<open>Errors of albumByID\<close>

lemma db_QueryRow_absent:
  "k \<notin> set (map ID (album_rows t)) \<Longrightarrow>
   db_QueryRow t ''SELECT * FROM album WHERE id = ?'' [SqlInt64 k] = ((Album_zero, Some ErrNoRows), t)"
proof -
  assume "k \<notin> set (map ID (album_rows t))"
  then have "filter (\<lambda>r. ID r = k) (album_rows t) = []"
    by (auto simp: filter_empty_conv)
  then show ?thesis by simp
qed

text \<open>
  C2. For every key \<open>k\<close> and every handle: when the \<open>Scan\<close> of the row answers
  \<open>sql.ErrNoRows\<close> (the query matched no row), \<open>albumByID\<close> returns the error
  \<open>albumsById %d: no such album\<close> built from \<open>k\<close>; when it answers any other error, the
  error \<open>albumsById %d: %v\<close> built from \<open>k\<close> and that error; and it returns a nil error
  only when \<open>Scan\<close> did, so a lookup that matched no row is never a success. On the
  database, a key that no row has gives the no-such-album error for that key.
\<close>

theorem albumByID_errors:
  "(snd (fst (QueryRow db s ''SELECT * FROM album WHERE id = ?'' [SqlInt64 k])) = Some ErrNoRows \<longrightarrow>
      snd (fst (albumByID db k s)) = Some (Errorf ''albumsById %d: no such album'' [FInt64 k])) \<and>
   (snd (fst (QueryRow db s ''SELECT * FROM album WHERE id = ?'' [SqlInt64 k])) = Some e \<and>
    e \<noteq> ErrNoRows \<longrightarrow>
      snd (fst (albumByID db k s)) = Some (Errorf ''albumsById %d: %v'' [FInt64 k, FError e])) \<and>
   ((snd (fst (albumByID db k s)) = None) =
      (snd (fst (QueryRow db s ''SELECT * FROM album WHERE id = ?'' [SqlInt64 k])) = None)) \<and>
   (k \<notin> set (map ID (album_rows t)) \<longrightarrow>
      snd (fst (albumByID album_db k t)) = Some (Errorf ''albumsById %d: no such album'' [FInt64 k]))"
proof (intro conjI impI)
  assume "k \<notin> set (map ID (album_rows t))"
  from db_QueryRow_absent [OF this]
  show "snd (fst (albumByID album_db k t)) = Some (Errorf ''albumsById %d: no such album'' [FInt64 k])"
    by (simp add: albumByID_def album_db_def)
qed (auto simp: albumByID_def split: prod.splits option.splits)

theorem albumByID_errors_witness:
  "snd (fst (albumByID broken_cursor_db 9 ()))
     = Some (Errorf ''albumsById %d: no such album'' [FInt64 9]) \<and>
   snd (fst (albumByID denied_db 9 ()))
     = Some (Errorf ''albumsById %d: %v'' [FInt64 9, FError access_denied]) \<and>
   snd (fst (albumByID album_db 9 sample_table))
     = Some (Errorf ''albumsById %d: no such album'' [FInt64 9])"
  using albumByID_errors [of broken_cursor_db "()" 9 access_denied sample_table]
    albumByID_errors [of denied_db "()" 9 access_denied sample_table]
  by (simp add: broken_cursor_db_def denied_db_def fixed_db_def access_denied_def
      sample_table_def blue_train_def giant_steps_def jeru_def)

text \<open>
  C9, as the code has it. \<open>albumByID\<close> returns its local \<open>alb\<close> on every path, so the
  record beside an error is \<open>alb\<close> as \<open>Scan\<close> left it: the zero-value record when \<open>Scan\<close>
  assigned nothing before failing, and otherwise the fields \<open>Scan\<close> had assigned.
\<close>

theorem albumByID_error_record:
  "snd (fst (albumByID db k s)) \<noteq> None \<longrightarrow>
     fst (fst (albumByID db k s))
       = fst (fst (QueryRow db s ''SELECT * FROM album WHERE id = ?'' [SqlInt64 k])) \<and>
     (fst (fst (QueryRow db s ''SELECT * FROM album WHERE id = ?'' [SqlInt64 k])) = Album_zero
        \<longrightarrow> fst (fst (albumByID db k s)) = Album_zero)"
  by (auto simp: albumByID_def split: prod.splits option.splits)

theorem albumByID_error_record_witness:
  "snd (fst (albumByID denied_db 2 ())) \<noteq> None \<and>
   fst (fst (albumByID denied_db 2 ())) = Album_zero"
  using albumByID_error_record [of denied_db 2 "()"]
  by (simp add: albumByID_def denied_db_def fixed_db_def access_denied_def)

text \<open>
  C9, as the claim states it, fails: on the table whose row 2 has no title, \<open>Scan\<close> has
  assigned the key when it fails on the title, and \<open>albumByID 2\<close> returns the error
  together with a record whose key is 2, not the zero-value record.
\<close>

theorem albumByID_partial_record_counterexample:
  "snd (fst (albumByID null_title_db 2 ()))
     = Some (Errorf ''albumsById %d: %v'' [FInt64 2, FError null_title]) \<and>
   fst (fst (albumByID null_title_db 2 ())) = \<lparr>ID = 2, Title = [], Artist = [], Price = 0\<rparr> \<and>
   fst (fst (albumByID null_title_db 2 ())) \<noteq> Album_zero"
  by (simp add: albumByID_def null_title_db_def fixed_db_def null_title_def Album_zero_def)

section \<open>addAlbum and the key of its argument\<close>

text \<open>
  C10. Two records that agree on title, artist and price give, on every handle and in
  every state of it, the same result of \<open>addAlbum\<close> and the same state afterwards,
  whatever their keys; and the statement a recording handle sees is, for both, the
  INSERT bound to the title, the artist and the price.
\<close>

theorem addAlbum_ignores_ID:
  "Title a = Title b \<and> Artist a = Artist b \<and> Price a = Price b \<longrightarrow>
     addAlbum db a s = addAlbum db b s \<and>
     snd (addAlbum recording_db a log)
       = log @ [(''INSERT INTO album (title, artist, price) VALUES (?, ?, ?)'',
                 [SqlString (Title a), SqlString (Artist a), SqlFloat32 (Price a)])] \<and>
     snd (addAlbum recording_db b log) = snd (addAlbum recording_db a log)"
  by (simp add: addAlbum_def recording_db_def)

theorem addAlbum_ignores_ID_witness:
  "ID betty_carter \<noteq> ID (betty_carter\<lparr>ID := 41\<rparr>) \<and>
   addAlbum album_db betty_carter sample_table
     = addAlbum album_db (betty_carter\<lparr>ID := 41\<rparr>) sample_table \<and>
   snd (addAlbum recording_db (betty_carter\<lparr>ID := 41\<rparr>) [])
     = [(''INSERT INTO album (title, artist, price) VALUES (?, ?, ?)'',
         [SqlString ''The Modern Sound of Betty Carter'', SqlString ''Betty Carter'',
          SqlFloat32 0x4247F5C3])]"
  using addAlbum_ignores_ID [of betty_carter "betty_carter\<lparr>ID := 41\<rparr>" album_db sample_table "[]"]
  by (simp add: betty_carter_def)

section \<open>Startup\<close>

text \<open>
  C8. When \<open>sql.Open\<close> fails, \<open>main\<close> does nothing after it but \<open>log.Fatal\<close>; when the
  handle opens and \<open>db.Ping()\<close> fails, nothing after the ping but \<open>log.Fatal\<close>. In both
  cases no call of \<open>albumsByArtist\<close>, \<open>albumByID\<close> or \<open>addAlbum\<close> is among the events
  and the exit status is 1.
\<close>

theorem main_halts_before_queries:
  "(sql_Open e ''mysql'' (main_cfg e) = Inl err \<longrightarrow>
      main e = ([SqlOpen ''mysql'' (main_cfg e), LogFatal err], 1)) \<and>
   (sql_Open e ''mysql'' (main_cfg e) = Inr s0 \<and> fst (Ping (handle e) s0) = Some pingErr \<longrightarrow>
      main e = ([SqlOpen ''mysql'' (main_cfg e), DbPing, LogFatal pingErr], 1)) \<and>
   ((\<exists>err. sql_Open e ''mysql'' (main_cfg e) = Inl err) \<or>
    (\<exists>s0 pingErr. sql_Open e ''mysql'' (main_cfg e) = Inr s0 \<and>
        fst (Ping (handle e) s0) = Some pingErr) \<longrightarrow>
      filter is_query_call (fst (main e)) = [] \<and> snd (main e) = 1)"
proof -
  have open_fails: "main e = ([SqlOpen ''mysql'' (main_cfg e), LogFatal x], 1)"
    if "sql_Open e ''mysql'' (main_cfg e) = Inl x" for x
    using that by (simp add: main_def Let_def)
  have ping_fails: "main e = ([SqlOpen ''mysql'' (main_cfg e), DbPing, LogFatal y], 1)"
    if h1: "sql_Open e ''mysql'' (main_cfg e) = Inr st" and h2: "fst (Ping (handle e) st) = Some y"
    for st y
  proof -
    obtain st' where "Ping (handle e) st = (Some y, st')"
      using h2 by (cases "Ping (handle e) st") simp
    with h1 show ?thesis by (simp add: main_def Let_def)
  qed
  show ?thesis
  proof (intro conjI impI)
    assume "sql_Open e ''mysql'' (main_cfg e) = Inl err"
    then show "main e = ([SqlOpen ''mysql'' (main_cfg e), LogFatal err], 1)"
      by (rule open_fails)
  next
    assume "sql_Open e ''mysql'' (main_cfg e) = Inr s0 \<and> fst (Ping (handle e) s0) = Some pingErr"
    then show "main e = ([SqlOpen ''mysql'' (main_cfg e), DbPing, LogFatal pingErr], 1)"
      using ping_fails by blast
  next
    assume "(\<exists>err. sql_Open e ''mysql'' (main_cfg e) = Inl err) \<or>
      (\<exists>s0 pingErr. sql_Open e ''mysql'' (main_cfg e) = Inr s0 \<and>
          fst (Ping (handle e) s0) = Some pingErr)"
    then consider x where "main e = ([SqlOpen ''mysql'' (main_cfg e), LogFatal x], 1)"
      | y where "main e = ([SqlOpen ''mysql'' (main_cfg e), DbPing, LogFatal y], 1)"
      using open_fails ping_fails by blast
    then show "filter is_query_call (fst (main e)) = []" by cases simp_all
  next
    assume "(\<exists>err. sql_Open e ''mysql'' (main_cfg e) = Inl err) \<or>
      (\<exists>s0 pingErr. sql_Open e ''mysql'' (main_cfg e) = Inr s0 \<and>
          fst (Ping (handle e) s0) = Some pingErr)"
    then consider x where "main e = ([SqlOpen ''mysql'' (main_cfg e), LogFatal x], 1)"
      | y where "main e = ([SqlOpen ''mysql'' (main_cfg e), DbPing, LogFatal y], 1)"
      using open_fails ping_fails by blast
    then show "snd (main e) = 1" by cases simp_all
  qed
qed

theorem main_halts_before_queries_witness:
  "filter is_query_call (fst (main open_fails_env)) = [] \<and> snd (main open_fails_env) = 1 \<and>
   main ping_fails_env =
     ([SqlOpen ''mysql'' \<lparr>User = [], Passwd = [], Net = ''tcp'', Addr = ''127.0.0.1:3306'',
                          DBName = ''recordings'', AllowNativePasswords = True\<rparr>,
       DbPing, LogFatal (DriverError ''dial tcp 127.0.0.1:3306: connection refused'')], 1)"
  using main_halts_before_queries [of open_fails_env "DriverError ''sql: unknown driver''"]
    main_halts_before_queries
      [of ping_fails_env _ sample_table "DriverError ''dial tcp 127.0.0.1:3306: connection refused''"]
  by (simp add: open_fails_env_def ping_fails_env_def main_cfg_def)

section \<open>The operations on the database\<close>

lemma albumsByArtist_album_db:
  "albumsByArtist album_db name t =
     ((foldl append_slice NilSlice (filter (\<lambda>r. Artist r = name) (album_rows t)), None), t)"
  by (simp add: albumsByArtist_def album_db_def rows_loop_all_ok)

lemma rows_loop_decoded:
  "list_all (\<lambda>x. snd x = None) scans \<Longrightarrow>
   rows_loop name scans acc = Inr (foldl append_slice acc (map fst scans))"
proof (induction scans arbitrary: acc)
  case Nil
  then show ?case by simp
next
  case (Cons x scans)
  then show ?case by (cases x) simp
qed

lemma rows_loop_Inr:
  "rows_loop name scans acc = Inr albums \<Longrightarrow> list_all (\<lambda>x. snd x = None) scans"
proof (induction scans arbitrary: acc)
  case Nil
  then show ?case by simp
next
  case (Cons x scans)
  obtain alb scan_err where x: "x = (alb, scan_err)" by (cases x)
  show ?case
  proof (cases scan_err)
    case None
    with Cons.prems x have "rows_loop name scans (append_slice acc alb) = Inr albums" by simp
    from Cons.IH [OF this] x None show ?thesis by simp
  next
    case (Some e)
    with Cons.prems x show ?thesis by simp
  qed
qed

lemma albumsByArtist_decoded:
  assumes "Query db s ''SELECT * FROM album WHERE artist = ?'' [SqlString name]
             = (Inr (scans, None), s')"
    and "list_all (\<lambda>x. snd x = None) scans"
  shows "albumsByArtist db name s = ((foldl append_slice NilSlice (map fst scans), None), s')"
  using assms by (simp add: albumsByArtist_def rows_loop_decoded)

lemma albumsByArtist_success_only:
  assumes "snd (fst (albumsByArtist db name s)) = None"
  shows "\<exists>scans s'. Query db s ''SELECT * FROM album WHERE artist = ?'' [SqlString name]
             = (Inr (scans, None), s') \<and> list_all (\<lambda>x. snd x = None) scans"
proof (cases "Query db s ''SELECT * FROM album WHERE artist = ?'' [SqlString name]")
  case (Pair q s')
  show ?thesis
  proof (cases q)
    case (Inl err)
    with Pair assms show ?thesis by (simp add: albumsByArtist_def)
  next
    case (Inr rows)
    obtain scans rows_err where rows: "rows = (scans, rows_err)" by (cases rows)
    show ?thesis
    proof (cases "rows_loop name scans NilSlice")
      case (Inl ret)
      then have "snd ret \<noteq> None" by (simp add: rows_loop_Inl)
      with Pair Inr rows Inl assms show ?thesis by (simp add: albumsByArtist_def)
    next
      case loop: (Inr albums)
      then have ok: "list_all (\<lambda>x. snd x = None) scans" by (rule rows_loop_Inr)
      from Pair Inr rows loop assms have "rows_err = None"
        by (cases rows_err) (simp_all add: albumsByArtist_def)
      with Pair Inr rows ok show ?thesis by simp
    qed
  qed
qed

text \<open>
  C1, as the code has it. For every handle, state and name: when \<open>db.Query\<close> opens a
  cursor, the \<open>Scan\<close> of every row of the cursor succeeds and \<open>rows.Err()\<close> is nil,
  \<open>albumsByArtist\<close> returns a nil error and a slice whose elements are the decoded rows
  of the cursor, each once and in cursor order; and it returns a nil error in no other
  case. On the database, whose cursor holds the rows of the table whose artist equals
  the name and whose rows all decode, the elements are therefore exactly those rows: a
  row is in the result exactly when it is in the table with that artist, and the table
  is left as it was.
\<close>

theorem albumsByArtist_exact_when_decoded:
  "(Query db s ''SELECT * FROM album WHERE artist = ?'' [SqlString name]
        = (Inr (scans, None), s') \<and>
    list_all (\<lambda>x. snd x = None) scans \<longrightarrow>
      snd (fst (albumsByArtist db name s)) = None \<and>
      elems (fst (fst (albumsByArtist db name s))) = map fst scans \<and>
      snd (albumsByArtist db name s) = s') \<and>
   (snd (fst (albumsByArtist db name s)) = None \<longrightarrow>
      (\<exists>scans' s''. Query db s ''SELECT * FROM album WHERE artist = ?'' [SqlString name]
                        = (Inr (scans', None), s'') \<and>
                     list_all (\<lambda>x. snd x = None) scans')) \<and>
   snd (fst (albumsByArtist album_db name t)) = None \<and>
   elems (fst (fst (albumsByArtist album_db name t)))
     = filter (\<lambda>r. Artist r = name) (album_rows t) \<and>
   (\<forall>r. (r \<in> set (elems (fst (fst (albumsByArtist album_db name t)))))
          = (r \<in> set (album_rows t) \<and> Artist r = name)) \<and>
   snd (albumsByArtist album_db name t) = t"
proof (intro conjI impI)
  assume h: "Query db s ''SELECT * FROM album WHERE artist = ?'' [SqlString name]
        = (Inr (scans, None), s') \<and> list_all (\<lambda>x. snd x = None) scans"
  then have r: "albumsByArtist db name s
      = ((foldl append_slice NilSlice (map fst scans), None), s')"
    by (simp add: albumsByArtist_decoded)
  show "snd (fst (albumsByArtist db name s)) = None" by (simp add: r)
  show "elems (fst (fst (albumsByArtist db name s))) = map fst scans"
    by (simp add: r elems_foldl_append)
  show "snd (albumsByArtist db name s) = s'" by (simp add: r)
next
  assume "snd (fst (albumsByArtist db name s)) = None"
  then show "\<exists>scans' s''. Query db s ''SELECT * FROM album WHERE artist = ?'' [SqlString name]
                        = (Inr (scans', None), s'') \<and>
                     list_all (\<lambda>x. snd x = None) scans'"
    by (rule albumsByArtist_success_only)
qed (simp_all add: albumsByArtist_album_db elems_foldl_append)

theorem albumsByArtist_exact_when_decoded_witness:
  "albumsByArtist album_db ''John Coltrane'' sample_table
     = ((Slice [blue_train, giant_steps], None), sample_table) \<and>
   elems (fst (fst (albumsByArtist album_db ''John Coltrane'' sample_table)))
     = [blue_train, giant_steps]"
  using albumsByArtist_exact_when_decoded
    [of album_db sample_table "''John Coltrane''" "[(blue_train, None), (giant_steps, None)]"
        sample_table sample_table]
  by (simp add: albumsByArtist_def album_db_def sample_table_def blue_train_def
      giant_steps_def jeru_def)

text \<open>
  C1, as the claim states it, fails: on the table of \<open>blue_train\<close> and a second John
  Coltrane row whose title is NULL, the cursor for John Coltrane yields \<open>blue_train\<close>,
  which decodes and whose artist is John Coltrane, and then the row that does not
  decode; \<open>albumsByArtist\<close> returns the error and the nil slice, so the matching row
  \<open>blue_train\<close> is not in the result.
\<close>

theorem albumsByArtist_matching_row_dropped_counterexample:
  "Artist blue_train = ''John Coltrane'' \<and>
   Query untitled_row_db () ''SELECT * FROM album WHERE artist = ?'' [SqlString ''John Coltrane'']
     = (Inr ([(blue_train, None), (Album_zero\<lparr>ID := 2\<rparr>, Some null_title)], None), ()) \<and>
   albumsByArtist untitled_row_db ''John Coltrane'' ()
     = ((NilSlice, Some (Errorf ''albumsByArtist %q: %v''
                          [FString ''John Coltrane'', FError null_title])), ()) \<and>
   blue_train \<notin> set (elems (fst (fst (albumsByArtist untitled_row_db ''John Coltrane'' ()))))"
  by (simp add: albumsByArtist_def untitled_row_db_def fixed_db_def blue_train_def)

text \<open>
  C5, as the code has it. When no row of the table has the artist, \<open>albumsByArtist\<close>
  returns a nil error and the nil slice, the value \<open>var albums []Album\<close> declared and
  nothing was appended to: a slice of length 0 and the same slice value the error paths
  return.
\<close>

theorem albumsByArtist_no_match_nil:
  "(\<forall>r \<in> set (album_rows t). Artist r \<noteq> name) \<longrightarrow>
     albumsByArtist album_db name t = ((NilSlice, None), t) \<and>
     len (fst (fst (albumsByArtist album_db name t))) = 0"
proof
  assume "\<forall>r \<in> set (album_rows t). Artist r \<noteq> name"
  then have "filter (\<lambda>r. Artist r = name) (album_rows t) = []"
    by (simp add: filter_empty_conv)
  then show "albumsByArtist album_db name t = ((NilSlice, None), t) \<and>
     len (fst (fst (albumsByArtist album_db name t))) = 0"
    by (simp add: albumsByArtist_album_db len_def)
qed

theorem albumsByArtist_no_match_nil_witness:
  "albumsByArtist album_db ''Betty Carter'' sample_table = ((NilSlice, None), sample_table)"
  using albumsByArtist_no_match_nil [of sample_table "''Betty Carter''"]
  by (simp add: sample_table_def blue_train_def giant_steps_def jeru_def)

text \<open>
  C5, as the claim states it, fails: with no row by the artist in the table the slice
  returned is the nil slice, not an allocated slice without elements.
\<close>

theorem albumsByArtist_no_match_counterexample:
  "fst (fst (albumsByArtist album_db ''Betty Carter'' sample_table)) = NilSlice \<and>
   fst (fst (albumsByArtist album_db ''Betty Carter'' sample_table)) \<noteq> Slice []"
  by (simp add: albumsByArtist_album_db sample_table_def blue_train_def giant_steps_def jeru_def)

lemma db_QueryRow_present:
  "k \<in> set (map ID (album_rows t)) \<Longrightarrow>
   \<exists>r. db_QueryRow t ''SELECT * FROM album WHERE id = ?'' [SqlInt64 k] = ((r, None), t) \<and>
       ID r = k \<and> r \<in> set (album_rows t)"
proof -
  assume "k \<in> set (map ID (album_rows t))"
  then have "filter (\<lambda>r. ID r = k) (album_rows t) \<noteq> []"
    by (auto simp: filter_empty_conv)
  then obtain r rest where f: "filter (\<lambda>r. ID r = k) (album_rows t) = r # rest"
    by (cases "filter (\<lambda>r. ID r = k) (album_rows t)") auto
  then have "r \<in> set (filter (\<lambda>r. ID r = k) (album_rows t))" by simp
  then have "ID r = k \<and> r \<in> set (album_rows t)" by simp
  with f show ?thesis by simp
qed

text \<open>
  C4, as the code has it. For every handle, state and key \<open>k\<close>: when the \<open>Scan\<close> of the
  row succeeds, \<open>albumByID\<close> returns a nil error and the record \<open>Scan\<close> decoded; when
  the \<open>Scan\<close> fails, also on a row that is there, it returns an error. On the
  database, whose rows all decode, a key that some row of the table has therefore gives
  a nil error and a row of the table whose key is that key, and the table is left as it
  was.
\<close>

theorem albumByID_existing_key_when_decoded:
  "(snd (fst (QueryRow db s ''SELECT * FROM album WHERE id = ?'' [SqlInt64 k])) = None \<longrightarrow>
      albumByID db k s
        = ((fst (fst (QueryRow db s ''SELECT * FROM album WHERE id = ?'' [SqlInt64 k])), None),
           snd (QueryRow db s ''SELECT * FROM album WHERE id = ?'' [SqlInt64 k]))) \<and>
   (snd (fst (QueryRow db s ''SELECT * FROM album WHERE id = ?'' [SqlInt64 k])) \<noteq> None \<longrightarrow>
      snd (fst (albumByID db k s)) \<noteq> None) \<and>
   (k \<in> set (map ID (album_rows t)) \<longrightarrow>
      (\<exists>alb. albumByID album_db k t = ((alb, None), t) \<and> ID alb = k \<and>
             alb \<in> set (album_rows t)))"
proof (intro conjI impI)
  assume "k \<in> set (map ID (album_rows t))"
  from db_QueryRow_present [OF this]
  show "\<exists>alb. albumByID album_db k t = ((alb, None), t) \<and> ID alb = k \<and> alb \<in> set (album_rows t)"
    by (auto simp: albumByID_def album_db_def)
qed (auto simp: albumByID_def split: prod.splits option.splits)

theorem albumByID_existing_key_when_decoded_witness:
  "albumByID album_db 2 sample_table = ((giant_steps, None), sample_table) \<and>
   ID giant_steps = 2 \<and>
   snd (fst (albumByID untitled_row_db 2 ())) \<noteq> None"
  using albumByID_existing_key_when_decoded [of album_db sample_table 2 sample_table]
    albumByID_existing_key_when_decoded [of untitled_row_db "()" 2 sample_table]
  by (simp add: albumByID_def album_db_def untitled_row_db_def fixed_db_def sample_table_def
      blue_train_def giant_steps_def jeru_def)

text \<open>
  C4, as the claim states it, fails: on the table whose row with key 2 has a NULL title
  the key 2 is present, \<open>Scan\<close> finds the row and assigns its key, and \<open>albumByID 2\<close>
  does not succeed: it returns the error of the failed decode, which is not the
  no-such-album error of a missing key.
\<close>

theorem albumByID_present_key_fails_counterexample:
  "QueryRow untitled_row_db () ''SELECT * FROM album WHERE id = ?'' [SqlInt64 2]
     = ((\<lparr>ID = 2, Title = [], Artist = [], Price = 0\<rparr>, Some null_title), ()) \<and>
   null_title \<noteq> ErrNoRows \<and>
   albumByID untitled_row_db 2 ()
     = ((\<lparr>ID = 2, Title = [], Artist = [], Price = 0\<rparr>,
         Some (Errorf ''albumsById %d: %v'' [FInt64 2, FError null_title])), ()) \<and>
   snd (fst (albumByID untitled_row_db 2 ())) \<noteq> None"
  by (simp add: albumByID_def untitled_row_db_def fixed_db_def null_title_def Album_zero_def)

section \<open>Insert, then look up\<close>

lemma unat_succ_int64: "unat (a :: int64) < 2 ^ 63 - 1 \<Longrightarrow> unat (a + 1) = Suc (unat a)"
  by (simp add: unat_word_ariths)

lemma addAlbum_album_db:
  "unat (auto_increment t) < 2 ^ 63 - 1 \<Longrightarrow>
   addAlbum album_db r t =
     ((auto_increment t, None),
      t\<lparr>album_rows := album_rows t @ [r\<lparr>ID := auto_increment t\<rparr>],
        auto_increment := auto_increment t + 1\<rparr>)"
  by (cases r) (simp add: addAlbum_def album_db_def)

lemma table_ok_fresh: "table_ok t \<Longrightarrow> auto_increment t \<notin> set (map ID (album_rows t))"
  by (auto simp: table_ok_def list_all_iff)

lemma albumByID_last_row:
  "k \<notin> set (map ID rows) \<Longrightarrow> ID new = k \<Longrightarrow> album_rows t = rows @ [new] \<Longrightarrow>
   albumByID album_db k t = ((new, None), t)"
proof -
  assume absent: "k \<notin> set (map ID rows)" and new: "ID new = k" and t: "album_rows t = rows @ [new]"
  from absent have "filter (\<lambda>r. ID r = k) rows = []"
    by (auto simp: filter_empty_conv)
  with new t have "filter (\<lambda>r. ID r = k) (album_rows t) = [new]" by simp
  then show ?thesis by (simp add: albumByID_def album_db_def)
qed

lemma albumByID_times_same:
  "albumByID db k s = (res, s) \<Longrightarrow> albumByID_times n db k s = (replicate n res, s)"
  by (induction n) simp_all

lemma generated_step:
  assumes "0 < unat (a :: int64)" and "unat a < 2 ^ 63 - 1"
  shows "(0 < unat k \<and> unat k < unat (a + 1)) = (k = a \<or> (0 < unat k \<and> unat k < unat a))"
proof -
  have "unat k = unat a \<longleftrightarrow> k = a" by (simp add: word_unat_eq_iff)
  with assms show ?thesis
    by (auto simp: unat_succ_int64 less_Suc_eq)
qed

lemma table_ok_insert:
  assumes "table_ok t" and "unat (auto_increment t) < 2 ^ 63 - 1" and "ID new = auto_increment t"
  shows "table_ok (t\<lparr>album_rows := album_rows t @ [new], auto_increment := auto_increment t + 1\<rparr>)"
proof -
  have s: "unat (auto_increment t + 1) = Suc (unat (auto_increment t))"
    using assms(2) by (rule unat_succ_int64)
  have fresh: "auto_increment t \<notin> set (map ID (album_rows t))"
    using assms(1) by (rule table_ok_fresh)
  show ?thesis
    using assms(1,3) fresh by (auto simp: table_ok_def s list_all_iff less_Suc_eq)
qed

text \<open>
  C3. On a table that satisfies the invariant of its key and whose counter has not run
  out, \<open>addAlbum\<close> of any record \<open>r\<close> returns a nil error and a key \<open>k\<close> that the table
  had not generated before and that no row has; afterwards the generated keys are
  \<open>k\<close> and those generated before, and the invariant holds again. \<open>albumByID k\<close> on the
  table after the insert returns a nil error and the record \<open>r\<close> with its key set to
  \<open>k\<close>, title, artist and price as in \<open>r\<close>; and so does each of any number of calls of
  \<open>albumByID k\<close> in a row.
\<close>

theorem addAlbum_albumByID_roundtrip:
  "table_ok t \<and> unat (auto_increment t) < 2 ^ 63 - 1 \<longrightarrow>
     (\<exists>k t'. addAlbum album_db r t = ((k, None), t') \<and>
        \<not> generated t k \<and> k \<notin> set (map ID (album_rows t)) \<and>
        (\<forall>k'. generated t' k' = (k' = k \<or> generated t k')) \<and>
        table_ok t' \<and>
        albumByID album_db k t' = ((r\<lparr>ID := k\<rparr>, None), t') \<and>
        (\<forall>n. albumByID_times n album_db k t' = (replicate n (r\<lparr>ID := k\<rparr>, None), t')))"
proof
  assume h: "table_ok t \<and> unat (auto_increment t) < 2 ^ 63 - 1"
  define k where "k = auto_increment t"
  define t' where
    "t' = t\<lparr>album_rows := album_rows t @ [r\<lparr>ID := k\<rparr>], auto_increment := k + 1\<rparr>"
  have room: "unat k < 2 ^ 63 - 1" and pos: "0 < unat k"
    using h by (simp_all add: k_def table_ok_def)
  have ins: "addAlbum album_db r t = ((k, None), t')"
    using h by (simp add: addAlbum_album_db k_def t'_def)
  have notgen: "\<not> generated t k"
    by (simp add: generated_def k_def)
  have fresh: "k \<notin> set (map ID (album_rows t))"
    unfolding k_def using h by (intro table_ok_fresh) simp
  have gen: "\<forall>k'. generated t' k' = (k' = k \<or> generated t k')"
    using generated_step [OF pos room] by (simp add: generated_def t'_def k_def)
  have ok: "table_ok t'"
    using h table_ok_insert [of t "r\<lparr>ID := k\<rparr>"] by (simp add: t'_def k_def)
  have find: "albumByID album_db k t' = ((r\<lparr>ID := k\<rparr>, None), t')"
    by (rule albumByID_last_row [OF fresh]) (simp_all add: t'_def)
  have again: "\<forall>n. albumByID_times n album_db k t' = (replicate n (r\<lparr>ID := k\<rparr>, None), t')"
    using find by (simp add: albumByID_times_same)
  from ins notgen fresh gen ok find again
  show "\<exists>k t'. addAlbum album_db r t = ((k, None), t') \<and>
        \<not> generated t k \<and> k \<notin> set (map ID (album_rows t)) \<and>
        (\<forall>k'. generated t' k' = (k' = k \<or> generated t k')) \<and>
        table_ok t' \<and>
        albumByID album_db k t' = ((r\<lparr>ID := k\<rparr>, None), t') \<and>
        (\<forall>n. albumByID_times n album_db k t' = (replicate n (r\<lparr>ID := k\<rparr>, None), t'))"
    by blast
qed

theorem addAlbum_albumByID_roundtrip_witness:
  "table_ok sample_table \<and>
   fst (addAlbum album_db betty_carter sample_table) = (4, None) \<and>
   fst (albumByID album_db 4 (snd (addAlbum album_db betty_carter sample_table)))
     = (\<lparr>ID = 4, Title = ''The Modern Sound of Betty Carter'', Artist = ''Betty Carter'',
         Price = 0x4247F5C3\<rparr>, None)"
proof -
  have ok: "table_ok sample_table \<and> unat (auto_increment sample_table) < 2 ^ 63 - 1"
    by (simp add: table_ok_def sample_table_def blue_train_def giant_steps_def jeru_def)
  have ins: "addAlbum album_db betty_carter sample_table =
      ((4, None), sample_table\<lparr>album_rows := album_rows sample_table @ [betty_carter\<lparr>ID := 4\<rparr>],
                              auto_increment := 5\<rparr>)"
    by (simp add: addAlbum_def album_db_def sample_table_def betty_carter_def)
  from addAlbum_albumByID_roundtrip [of sample_table betty_carter] ok
  obtain k t' where "addAlbum album_db betty_carter sample_table = ((k, None), t')"
    and "albumByID album_db k t' = ((betty_carter\<lparr>ID := k\<rparr>, None), t')"
    by blast
  with ins ok show ?thesis by (simp add: betty_carter_def)
qed

end
